theory Spec2Isabelle
  imports Main
begin

section \<open>Python values held by the configuration\<close>

text \<open>
  The fields of \<^verbatim>\<open>OpenSmileConfig\<close> are not type-checked by \<^verbatim>\<open>@dataclass\<close>: each can
  hold any Python value. The values the source documents for them are \<^verbatim>\<open>None\<close>, booleans,
  integers, strings, sequences (lists and tuples) of values, dictionaries with string keys
  (\<^verbatim>\<open>options\<close>) and members of the engine's enumerations \<^verbatim>\<open>FeatureSet\<close> and
  \<^verbatim>\<open>FeatureLevel\<close> (an enumeration's name and the member's name). A dictionary is an
  association list in insertion order; a Python dictionary holds each key once. Floating
  point values are not modelled.
\<close>

datatype pyval =
    PNone
  | PBool bool
  | PInt int
  | PStr string
  | PList "pyval list"
  | PTuple "pyval list"
  | PDict "(string \<times> pyval) list"
  | PEnum string string

type_synonym pydict = "(string \<times> pyval) list"

text \<open>
  Python's \<^verbatim>\<open>==\<close> on these values. \<^verbatim>\<open>bool\<close> is a subclass of \<^verbatim>\<open>int\<close>, so \<^verbatim>\<open>True == 1\<close>
  and \<^verbatim>\<open>False == 0\<close>; a list never equals a tuple; two dictionaries are equal when they
  have the same keys with equal values, in any order; \<^verbatim>\<open>None\<close> and enumeration members
  are equal only to themselves.
\<close>

fun py_eq :: "pyval \<Rightarrow> pyval \<Rightarrow> bool" where
  "py_eq PNone PNone = True"
| "py_eq (PBool a) (PBool b) = (a = b)"
| "py_eq (PBool a) (PInt n) = ((if a then 1 else 0) = n)"
| "py_eq (PInt n) (PBool a) = (n = (if a then 1 else 0))"
| "py_eq (PInt m) (PInt n) = (m = n)"
| "py_eq (PStr s) (PStr t) = (s = t)"
| "py_eq (PList xs) (PList ys) = list_all2 py_eq xs ys"
| "py_eq (PTuple xs) (PTuple ys) = list_all2 py_eq xs ys"
| "py_eq (PDict d) (PDict e) =
     (length d = length e \<and>
      list_all (\<lambda>kv. list_ex (\<lambda>kw. fst kv = fst kw \<and> py_eq (snd kv) (snd kw)) e) d)"
| "py_eq (PEnum c m) (PEnum c' m') = (c = c' \<and> m = m')"
| "py_eq _ _ = False"

section \<open>The configuration record\<close>

text \<open>
  \<^verbatim>\<open>
  @dataclass
  class OpenSmileConfig:
      feature_set:Union[str, Any] = 'ComParE_2016'
      feature_level:Union[str, Any] = 'lld'
      options: dict = None
      loglevel: int = 2
      logfile: str = None
      sampling_rate: int = 16000
      channels: Union[int, Sequence[int]] = 0
      mixdown: bool = False
      resample: bool = False
      num_workers: Optional[int] = 1
      verbose: bool = False
  \<close>
\<close>

record OpenSmileConfig =
  feature_set :: pyval
  feature_level :: pyval
  options :: pyval
  loglevel :: pyval
  logfile :: pyval
  sampling_rate :: pyval
  channels :: pyval
  mixdown :: pyval
  resample :: pyval
  num_workers :: pyval
  verbose :: pyval

text \<open>The names of the fields, in declaration order (\<^verbatim>\<open>dataclasses.fields\<close>).\<close>

definition field_names :: "string list" where
  "field_names =
     [''feature_set'', ''feature_level'', ''options'', ''loglevel'', ''logfile'',
      ''sampling_rate'', ''channels'', ''mixdown'', ''resample'', ''num_workers'',
      ''verbose'']"

text \<open>The declared default of each field: what \<^verbatim>\<open>OpenSmileConfig()\<close> builds.\<close>

definition default_config :: OpenSmileConfig where
  "default_config =
     \<lparr> feature_set = PStr ''ComParE_2016'',
       feature_level = PStr ''lld'',
       options = PNone,
       loglevel = PInt 2,
       logfile = PNone,
       sampling_rate = PInt 16000,
       channels = PInt 0,
       mixdown = PBool False,
       resample = PBool False,
       num_workers = PInt 1,
       verbose = PBool False \<rparr>"

subsection \<open>Errors\<close>

text \<open>
  The exceptions the module raises itself are a failed \<^verbatim>\<open>assert\<close> (with its message, empty
  when the statement has none) and \<^verbatim>\<open>TypeError\<close>: of a call with an unexpected keyword
  (with the keyword), and of a call of an object that is not callable (with the message). An
  exception raised inside the engine is not caught anywhere in the
  module: it reaches the caller unchanged, as \<open>Raised\<close>. Assertions are enabled, as they are
  unless the interpreter is started with \<^verbatim>\<open>-O\<close>.
\<close>

datatype 'x error =
    AssertionError string
  | TypeError string
  | Raised 'x

subsection \<open>\<^verbatim>\<open>to_dict\<close> and \<^verbatim>\<open>from_dict\<close>\<close>

text \<open>
  \<^verbatim>\<open>dataclasses.asdict\<close> copies every field value recursively: a list or a tuple is rebuilt
  from the copies of its elements, a dictionary from the copies of its keys and values, and
  anything else goes through \<^verbatim>\<open>copy.deepcopy\<close>, which returns atoms and enumeration members
  as they are.
\<close>

fun asdict_inner :: "pyval \<Rightarrow> pyval" where
  "asdict_inner (PList xs) = PList (map asdict_inner xs)"
| "asdict_inner (PTuple xs) = PTuple (map asdict_inner xs)"
| "asdict_inner (PDict d) = PDict (map (\<lambda>kv. (fst kv, asdict_inner (snd kv))) d)"
| "asdict_inner v = v"

text \<open>
  \<^verbatim>\<open>
  def to_dict(self) -> Dict[str, Any]:
      return asdict(self)
  \<close>
\<close>

definition to_dict :: "OpenSmileConfig \<Rightarrow> pydict" where
  "to_dict c =
     [(''feature_set'', asdict_inner (feature_set c)),
      (''feature_level'', asdict_inner (feature_level c)),
      (''options'', asdict_inner (options c)),
      (''loglevel'', asdict_inner (loglevel c)),
      (''logfile'', asdict_inner (logfile c)),
      (''sampling_rate'', asdict_inner (sampling_rate c)),
      (''channels'', asdict_inner (channels c)),
      (''mixdown'', asdict_inner (mixdown c)),
      (''resample'', asdict_inner (resample c)),
      (''num_workers'', asdict_inner (num_workers c)),
      (''verbose'', asdict_inner (verbose c))]"

text \<open>
  A keyword argument of the generated \<^verbatim>\<open>__init__\<close>: the value passed under the field's
  name, the field's default when the name is not passed.
\<close>

definition kwarg :: "pydict \<Rightarrow> string \<Rightarrow> pyval \<Rightarrow> pyval" where
  "kwarg data k dflt = (case map_of data k of Some v \<Rightarrow> v | None \<Rightarrow> dflt)"

text \<open>
  \<^verbatim>\<open>
  @staticmethod
  def from_dict(data: Dict[str, Any]) -> "OpenSmileConfig":
      return OpenSmileConfig(**data)
  \<close>
  The call raises \<^verbatim>\<open>TypeError\<close> at the first key that is not a parameter of the generated
  \<^verbatim>\<open>__init__\<close>, that is, not a field name. Every parameter has a default.
\<close>

definition from_dict :: "pydict \<Rightarrow> 'x error + OpenSmileConfig" where
  "from_dict data =
     (case find (\<lambda>k. k \<notin> set field_names) (map fst data) of
        Some k \<Rightarrow> Inl (TypeError k)
      | None \<Rightarrow>
          Inr \<lparr> feature_set = kwarg data ''feature_set'' (feature_set default_config),
                feature_level = kwarg data ''feature_level'' (feature_level default_config),
                options = kwarg data ''options'' (options default_config),
                loglevel = kwarg data ''loglevel'' (loglevel default_config),
                logfile = kwarg data ''logfile'' (logfile default_config),
                sampling_rate = kwarg data ''sampling_rate'' (sampling_rate default_config),
                channels = kwarg data ''channels'' (channels default_config),
                mixdown = kwarg data ''mixdown'' (mixdown default_config),
                resample = kwarg data ''resample'' (resample default_config),
                num_workers = kwarg data ''num_workers'' (num_workers default_config),
                verbose = kwarg data ''verbose'' (verbose default_config) \<rparr>)"

section \<open>The interpreter's state, the framework and the engine\<close>

text \<open>
  What the framework's registry holds for an extractor class: its class attributes
  \<^verbatim>\<open>name\<close> and \<^verbatim>\<open>config_type\<close> (the configuration class, by its name).
\<close>

record extractor_class =
  name :: string
  config_type :: string

text \<open>
  The part of the interpreter's state the module touches: the modules its \<^verbatim>\<open>import\<close>
  statements have brought in so far, and the framework's registry of extractors.
\<close>

record pystate =
  imported :: "string set"
  FEATURE_EXTRACTORS :: "string \<rightharpoonup> extractor_class"

text \<open>
  Modelled from the spec: \<^verbatim>\<open>lhotse.features.base.register_extractor\<close> is not among the
  sources. The spec has the registry as a ``framework-wide lookup table from symbolic name to
  extractor implementation/config-type pair'', in which the adapter ``registers itself under
  the fixed symbolic name'': the decorator stores the class under the class's \<^verbatim>\<open>name\<close>.
\<close>

definition register_extractor :: "extractor_class \<Rightarrow> pystate \<Rightarrow> pystate" where
  "register_extractor cls st =
     st\<lparr>FEATURE_EXTRACTORS := (FEATURE_EXTRACTORS st)(name cls \<mapsto> cls)\<rparr>"

text \<open>
  Modelled from the spec: \<^verbatim>\<open>FeatureExtractor.__init__\<close> of \<^verbatim>\<open>lhotse.features.base\<close> is not
  among the sources. The spec has the adapter ``constructed once from the configuration
  record'': the initialiser stores the configuration it is given. The spec does not say what
  is stored when the call passes \<^verbatim>\<open>None\<close>, the parameter's default; the model takes the
  configuration of declared defaults, \<^verbatim>\<open>config_type()\<close>. No property below depends on that
  case.
\<close>

definition FeatureExtractor_init :: "OpenSmileConfig option \<Rightarrow> OpenSmileConfig" where
  "FeatureExtractor_init cfg = (case cfg of None \<Rightarrow> default_config | Some c \<Rightarrow> c)"

text \<open>
  Everything outside the module that its functions call, as parameters:
  \<^item> \<^verbatim>\<open>lhotse.utils.is_module_available\<close> (not among the sources);
  \<^item> the statement \<^verbatim>\<open>import opensmile\<close>, which runs the package and may raise;
  \<^item> the names in \<^verbatim>\<open>opensmile.FeatureSet.__members__\<close>;
  \<^item> the constructor \<^verbatim>\<open>opensmile.Smile\<close>, given its keyword arguments;
  \<^item> the engine's attribute \<^verbatim>\<open>feature_names\<close>: on \<^verbatim>\<open>opensmile.Smile\<close> it is a property
    that holds the list of the feature names, not a method (reading it may raise);
  \<^item> the engine's method \<^verbatim>\<open>process_signal\<close>, and \<^verbatim>\<open>to_numpy\<close> of the table it returns.
  The types of engine instances \<open>'eng\<close>, signal buffers \<open>'sig\<close>, result tables \<open>'df\<close>,
  arrays \<open>'arr\<close> and of the exceptions of that code \<open>'x\<close> are left open.
\<close>

record ('eng, 'sig, 'df, 'arr, 'x) opensmile_env =
  is_module_available :: "string \<Rightarrow> bool"
  import_opensmile :: "'x + unit"
  FeatureSet_members :: "string list"
  Smile :: "pydict \<Rightarrow> 'x + 'eng"
  smile_feature_names :: "'eng \<Rightarrow> 'x + string list"
  process_signal :: "'eng \<Rightarrow> 'sig \<Rightarrow> pyval \<Rightarrow> 'x + 'df"
  to_numpy :: "'df \<Rightarrow> 'x + 'arr"

text \<open>A call into that code: its exception, if any, reaches the caller unchanged.\<close>

definition propagate :: "'x + 'a \<Rightarrow> 'x error + 'a" where
  "propagate r = (case r of Inl x \<Rightarrow> Inl (Raised x) | Inr v \<Rightarrow> Inr v)"

text \<open>The message of the two assertions on the engine's presence.\<close>

definition install_msg :: string where
  \<open>install_msg = ''To use opensmile extractors, please "pip install opensmile" first.''\<close>

text \<open>
  \<^verbatim>\<open>
  @staticmethod
  def featuresets_names():
      assert is_module_available("opensmile"), 'To use opensmile extractors, please "pip install opensmile" first.'
      import opensmile
      return list(opensmile.FeatureSet.__members__)
  \<close>
  A static method of \<^verbatim>\<open>OpenSmileConfig\<close>. The result comes with the interpreter's state after
  the call.
\<close>

definition featuresets_names ::
  "('eng, 'sig, 'df, 'arr, 'x) opensmile_env \<Rightarrow> pystate \<Rightarrow> ('x error + string list) \<times> pystate"
where
  "featuresets_names env st =
     (if \<not> is_module_available env ''opensmile'' then (Inl (AssertionError install_msg), st)
      else case import_opensmile env of
             Inl x \<Rightarrow> (Inl (Raised x), st)
           | Inr _ \<Rightarrow>
               (Inr (FeatureSet_members env),
                st\<lparr>imported := insert ''opensmile'' (imported st)\<rparr>))"

section \<open>The adapter\<close>

text \<open>
  \<^verbatim>\<open>
  @register_extractor
  class OpenSmileWrapper(FeatureExtractor):
      name = "opensmile-wrapper"
      config_type = OpenSmileConfig
      smileExtractor = None
  \<close>
  An instance exists once \<^verbatim>\<open>__init__\<close> has returned; it then holds its configuration and
  the engine instance.
\<close>

definition OpenSmileWrapper_class :: extractor_class where
  "OpenSmileWrapper_class = \<lparr> name = ''opensmile-wrapper'', config_type = ''OpenSmileConfig'' \<rparr>"

record 'eng OpenSmileWrapper =
  config :: OpenSmileConfig
  smileExtractor :: 'eng

text \<open>
  Loading the module runs its \<^verbatim>\<open>import\<close> statements (lines 1 to 7), defines the two classes
  and applies the decorator to \<^verbatim>\<open>OpenSmileWrapper\<close>.
\<close>

definition module_imports :: "string list" where
  "module_imports =
     [''dataclasses'', ''typing'', ''numpy'', ''lhotse.features.base'', ''lhotse.utils'']"

definition module_load :: "pystate \<Rightarrow> pystate" where
  "module_load st =
     register_extractor OpenSmileWrapper_class
       (st\<lparr>imported := imported st \<union> set module_imports\<rparr>)"

text \<open>The keyword arguments \<^verbatim>\<open>__init__\<close> passes to \<^verbatim>\<open>opensmile.Smile\<close>, as written.\<close>

definition smile_kwargs :: "OpenSmileConfig \<Rightarrow> pydict" where
  "smile_kwargs c =
     [(''feature_set'', feature_set c),
      (''feature_level'', feature_level c),
      (''sampling_rate'', sampling_rate c),
      (''options'', options c),
      (''loglevel'', loglevel c),
      (''logfile'', logfile c),
      (''channels'', channels c),
      (''mixdown'', mixdown c),
      (''resample'', resample c),
      (''num_workers'', num_workers c),
      (''verbose'', verbose c)]"

text \<open>
  \<^verbatim>\<open>
  def __init__(self, config: Optional[Any] = None):
      super().__init__(config=config)
      assert is_module_available(
          "opensmile"
      ), 'To use opensmile extractors, please "pip install opensmile" first.'
      import opensmile
      self.smileExtractor = opensmile.Smile(
          feature_set=self.config.feature_set,
          feature_level=self.config.feature_level,
          sampling_rate=self.config.sampling_rate,
          options=self.config.options,
          loglevel=self.config.loglevel,
          logfile=self.config.logfile,
          channels=self.config.channels,
          mixdown=self.config.mixdown,
          resample=self.config.resample,
          num_workers=self.config.num_workers,
          verbose=self.config.verbose
      )
  \<close>
  The result comes with the interpreter's state after the call.
\<close>

definition OpenSmileWrapper_init ::
  "('eng, 'sig, 'df, 'arr, 'x) opensmile_env \<Rightarrow> pystate \<Rightarrow> OpenSmileConfig option \<Rightarrow>
   ('x error + 'eng OpenSmileWrapper) \<times> pystate"
where
  "OpenSmileWrapper_init env st cfg =
     (let c = FeatureExtractor_init cfg in
      if \<not> is_module_available env ''opensmile'' then (Inl (AssertionError install_msg), st)
      else case import_opensmile env of
             Inl x \<Rightarrow> (Inl (Raised x), st)
           | Inr _ \<Rightarrow>
               (case Smile env (smile_kwargs c) of
                  Inl x \<Rightarrow> Inl (Raised x)
                | Inr e \<Rightarrow> Inr \<lparr> config = c, smileExtractor = e \<rparr>,
                st\<lparr>imported := insert ''opensmile'' (imported st)\<rparr>))"

text \<open>
  \<^verbatim>\<open>
  @property
  def frame_shift(self) -> Seconds:
  # TODO: (Parse the config)
      return 0

  def feature_dim(self, sampling_rate: int) -> int:
  # TODO (Parse the config)
      return 0
  \<close>
\<close>

definition frame_shift :: "'eng OpenSmileWrapper \<Rightarrow> int" where
  "frame_shift self = 0"

definition feature_dim :: "'eng OpenSmileWrapper \<Rightarrow> pyval \<Rightarrow> int" where
  "feature_dim self sr = 0"

text \<open>
  Calling a list, as in \<^verbatim>\<open>names()\<close>: a list is not callable, and Python raises
  \<^verbatim>\<open>TypeError: 'list' object is not callable\<close> whatever the list holds (the message is written
  here without its quotation marks).
\<close>

definition call_list :: "string list \<Rightarrow> 'x error + string list" where
  "call_list names = Inl (TypeError ''list object is not callable'')"

text \<open>
  \<^verbatim>\<open>
  def feature_names(self) -> List[str]:
      return self.smileExtractor.feature_names()
  \<close>
  The expression reads the engine's attribute \<^verbatim>\<open>feature_names\<close> and then calls what it read.
\<close>

definition feature_names ::
  "('eng, 'sig, 'df, 'arr, 'x) opensmile_env \<Rightarrow> 'eng OpenSmileWrapper \<Rightarrow> 'x error + string list"
where
  "feature_names env self =
     (case propagate (smile_feature_names env (smileExtractor self)) of
        Inl e \<Rightarrow> Inl e
      | Inr names \<Rightarrow> call_list names)"

text \<open>
  \<^verbatim>\<open>
  def extract(self, samples: np.ndarray, sampling_rate: int) -> np.ndarray:
      assert sampling_rate == self.config.sampling_rate
      return self.smileExtractor.process_signal(samples, sampling_rate=sampling_rate).to_numpy()
  \<close>
  The method is named \<open>wrapper_extract\<close> here: \<open>extract\<close> is a keyword of Isabelle.
\<close>

definition wrapper_extract ::
  "('eng, 'sig, 'df, 'arr, 'x) opensmile_env \<Rightarrow> 'eng OpenSmileWrapper \<Rightarrow> 'sig \<Rightarrow> pyval \<Rightarrow>
   'x error + 'arr"
where
  "wrapper_extract env self samples sr =
     (if \<not> py_eq sr (sampling_rate (config self)) then Inl (AssertionError [])
      else case propagate (process_signal env (smileExtractor self) samples sr) of
             Inl e \<Rightarrow> Inl e
           | Inr df \<Rightarrow> propagate (to_numpy env df))"

section \<open>A test double for the engine\<close>

text \<open>
  A small environment to run the functions on: the package is installed, an engine instance
  is the keyword arguments it was built from, its attribute \<^verbatim>\<open>feature_names\<close> holds two
  names, a signal is a list of samples,
  \<^verbatim>\<open>process_signal\<close> returns one row per sample holding the sample and its double, unless
  the signal is empty, which it rejects, and \<^verbatim>\<open>to_numpy\<close> returns the rows.
\<close>

definition stub_env :: "(pydict, int list, int list list, int list list, string) opensmile_env" where
  "stub_env =
     \<lparr> is_module_available = (\<lambda>m. m = ''opensmile''),
       import_opensmile = Inr (),
       FeatureSet_members = [''ComParE_2016'', ''GeMAPSv01a'', ''eGeMAPSv02''],
       Smile = (\<lambda>kw. Inr kw),
       smile_feature_names = (\<lambda>e. Inr [''value'', ''double'']),
       process_signal =
         (\<lambda>e s sr. if s = [] then Inl ''empty signal'' else Inr (map (\<lambda>v. [v, 2 * v]) s)),
       to_numpy = (\<lambda>df. Inr df) \<rparr>"

text \<open>The same environment without the package.\<close>

definition bare_env :: "(pydict, int list, int list list, int list list, string) opensmile_env" where
  "bare_env = stub_env\<lparr> is_module_available := (\<lambda>m. False) \<rparr>"

definition fresh_state :: pystate where
  "fresh_state = \<lparr> imported = {}, FEATURE_EXTRACTORS = Map.empty \<rparr>"

text \<open>The adapter that \<^verbatim>\<open>OpenSmileWrapper(c)\<close> builds in \<open>stub_env\<close>.\<close>

definition stub_wrapper :: "OpenSmileConfig \<Rightarrow> pydict OpenSmileWrapper" where
  "stub_wrapper c = \<lparr> config = c, smileExtractor = smile_kwargs c \<rparr>"

section \<open>Properties of the configuration record\<close>

lemma asdict_inner_id: "asdict_inner v = v"
proof (induction v rule: asdict_inner.induct)
  case (1 xs)
  then show ?case by (simp add: map_idI)
next
  case (2 xs)
  then show ?case by (simp add: map_idI)
next
  case (3 d)
  have "map (\<lambda>kv. (fst kv, asdict_inner (snd kv))) d = map (\<lambda>kv. kv) d"
  proof (rule map_cong)
    fix kv assume "kv \<in> set d"
    then have "asdict_inner (snd kv) = snd kv" by (rule "3.IH")
    then show "(fst kv, asdict_inner (snd kv)) = kv" by simp
  qed simp
  then show ?case by simp
qed simp_all

lemma kwarg_Cons: "kwarg ((k, v) # d) k' dflt = (if k = k' then v else kwarg d k' dflt)"
  by (simp add: kwarg_def)

lemma kwarg_Nil: "kwarg [] k dflt = dflt"
  by (simp add: kwarg_def)

lemma find_None_subset: "(find (\<lambda>k. k \<notin> A) ks = None) = (set ks \<subseteq> A)"
  by (auto simp: find_None_iff)

lemma keys_to_dict: "map fst (to_dict c) = field_names"
  by (simp add: to_dict_def field_names_def)

lemma from_dict_known:
  assumes "set (map fst data) \<subseteq> set field_names"
  shows "from_dict data =
     Inr \<lparr> feature_set = kwarg data ''feature_set'' (feature_set default_config),
           feature_level = kwarg data ''feature_level'' (feature_level default_config),
           options = kwarg data ''options'' (options default_config),
           loglevel = kwarg data ''loglevel'' (loglevel default_config),
           logfile = kwarg data ''logfile'' (logfile default_config),
           sampling_rate = kwarg data ''sampling_rate'' (sampling_rate default_config),
           channels = kwarg data ''channels'' (channels default_config),
           mixdown = kwarg data ''mixdown'' (mixdown default_config),
           resample = kwarg data ''resample'' (resample default_config),
           num_workers = kwarg data ''num_workers'' (num_workers default_config),
           verbose = kwarg data ''verbose'' (verbose default_config) \<rparr>"
proof -
  from assms have "find (\<lambda>k. k \<notin> set field_names) (map fst data) = None"
    by (simp only: find_None_subset)
  then show ?thesis
    unfolding from_dict_def by simp
qed

lemma from_dict_unknown:
  assumes "\<not> set (map fst data) \<subseteq> set field_names"
  shows "\<exists>k. k \<in> set (map fst data) \<and> k \<notin> set field_names \<and> from_dict data = Inl (TypeError k)"
proof -
  from assms have "find (\<lambda>k. k \<notin> set field_names) (map fst data) \<noteq> None"
    by (simp only: find_None_subset not_False_eq_True)
  then obtain k where k: "find (\<lambda>k. k \<notin> set field_names) (map fst data) = Some k"
    by blast
  then have "k \<in> set (map fst data)" and "k \<notin> set field_names"
    by (auto simp: find_Some_iff)
  moreover from k have "from_dict data = Inl (TypeError k)"
    by (simp add: from_dict_def)
  ultimately show ?thesis by blast
qed

lemma map_of_with_key:
  "map_of (map (\<lambda>kd. (fst kd, f (fst kd) (snd kd))) xs) k = map_option (f k) (map_of xs k)"
  by (induction xs) auto

lemma map_of_kwargs:
  assumes "set (map fst data) \<subseteq> set (map fst dflts)"
  shows "map_of (map (\<lambda>kd. (fst kd, kwarg data (fst kd) (snd kd))) dflts)
           = map_of dflts ++ map_of data"
proof (rule ext)
  fix k
  show "map_of (map (\<lambda>kd. (fst kd, kwarg data (fst kd) (snd kd))) dflts) k
          = (map_of dflts ++ map_of data) k"
  proof (cases "map_of dflts k")
    case None
    then have "k \<notin> set (map fst dflts)"
      by (simp add: map_of_eq_None_iff)
    with assms have "k \<notin> set (map fst data)" by blast
    then have "map_of data k = None"
      by (simp add: map_of_eq_None_iff)
    with None show ?thesis
      by (simp add: map_of_with_key map_add_def)
  next
    case (Some d)
    then show ?thesis
      unfolding map_of_with_key by (simp add: map_add_def kwarg_def split: option.splits)
  qed
qed

text \<open>
  C2. Serialising a configuration with \<open>to_dict\<close> and rebuilding it with \<open>from_dict\<close>
  succeeds and gives back the configuration, equal in every field, whatever values the
  fields hold (\<open>PNone\<close> included).
\<close>

theorem to_dict_from_dict_roundtrip: "from_dict (to_dict c) = Inr c"
proof -
  have "set (map fst (to_dict c)) \<subseteq> set field_names"
    by (simp only: keys_to_dict subset_refl)
  then have "from_dict (to_dict c) =
     Inr \<lparr> feature_set = kwarg (to_dict c) ''feature_set'' (feature_set default_config),
           feature_level = kwarg (to_dict c) ''feature_level'' (feature_level default_config),
           options = kwarg (to_dict c) ''options'' (options default_config),
           loglevel = kwarg (to_dict c) ''loglevel'' (loglevel default_config),
           logfile = kwarg (to_dict c) ''logfile'' (logfile default_config),
           sampling_rate = kwarg (to_dict c) ''sampling_rate'' (sampling_rate default_config),
           channels = kwarg (to_dict c) ''channels'' (channels default_config),
           mixdown = kwarg (to_dict c) ''mixdown'' (mixdown default_config),
           resample = kwarg (to_dict c) ''resample'' (resample default_config),
           num_workers = kwarg (to_dict c) ''num_workers'' (num_workers default_config),
           verbose = kwarg (to_dict c) ''verbose'' (verbose default_config) \<rparr>"
    by (rule from_dict_known)
  also have "\<dots> = Inr c"
    by (simp add: to_dict_def asdict_inner_id kwarg_Cons)
  finally show ?thesis .
qed

text \<open>
  C7, as stated, fails: a mapping that omits fields is not rejected. Here ten of the eleven
  fields are missing, and the record is built with their defaults.
\<close>

theorem from_dict_missing_keys_counterexample:
  "(from_dict [(''loglevel'', PInt 3)] :: unit error + OpenSmileConfig)
     = Inr (default_config\<lparr>loglevel := PInt 3\<rparr>)"
  by (simp add: from_dict_def field_names_def kwarg_Cons kwarg_Nil default_config_def)

text \<open>
  C7, amended. \<open>from_dict\<close> fails exactly when the mapping has a key that is not a field
  name, with the \<open>TypeError\<close> of such a key. Otherwise it builds a record, whatever fields
  the mapping omits: the record's dictionary is the dictionary of the defaults overridden by
  the mapping, so each omitted field holds its declared default.
\<close>

theorem from_dict_construction:
  "if set (map fst data) \<subseteq> set field_names
   then \<exists>c. from_dict data = Inr c \<and>
            map_of (to_dict c) = map_of (to_dict default_config) ++ map_of data
   else \<exists>k. k \<in> set (map fst data) \<and> k \<notin> set field_names \<and>
            from_dict data = Inl (TypeError k)"
proof (cases "set (map fst data) \<subseteq> set field_names")
  case True
  let ?c = "\<lparr> feature_set = kwarg data ''feature_set'' (feature_set default_config),
           feature_level = kwarg data ''feature_level'' (feature_level default_config),
           options = kwarg data ''options'' (options default_config),
           loglevel = kwarg data ''loglevel'' (loglevel default_config),
           logfile = kwarg data ''logfile'' (logfile default_config),
           sampling_rate = kwarg data ''sampling_rate'' (sampling_rate default_config),
           channels = kwarg data ''channels'' (channels default_config),
           mixdown = kwarg data ''mixdown'' (mixdown default_config),
           resample = kwarg data ''resample'' (resample default_config),
           num_workers = kwarg data ''num_workers'' (num_workers default_config),
           verbose = kwarg data ''verbose'' (verbose default_config) \<rparr>"
  from True have c: "from_dict data = Inr ?c"
    by (rule from_dict_known)
  have "to_dict ?c =
          map (\<lambda>kd. (fst kd, kwarg data (fst kd) (snd kd))) (to_dict default_config)"
    by (simp add: to_dict_def asdict_inner_id)
  moreover from True have "set (map fst data) \<subseteq> set (map fst (to_dict default_config))"
    by (simp only: keys_to_dict)
  ultimately have "map_of (to_dict ?c) = map_of (to_dict default_config) ++ map_of data"
    by (simp only: map_of_kwargs)
  with c True show ?thesis by (simp only: if_True) blast
next
  case False
  from from_dict_unknown [OF False] False show ?thesis
    by simp
qed

theorem from_dict_construction_witness:
  "(\<exists>c. (from_dict [(''loglevel'', PInt 3)] :: unit error + OpenSmileConfig) = Inr c \<and>
        map_of (to_dict c) ''loglevel'' = Some (PInt 3) \<and>
        map_of (to_dict c) ''sampling_rate'' = Some (PInt 16000)) \<and>
   (\<exists>k. (from_dict [(''sample_rate'', PInt 8000)] :: unit error + OpenSmileConfig)
           = Inl (TypeError k))"
proof -
  have ok: "set (map fst [(''loglevel'', PInt 3)]) \<subseteq> set field_names"
    by (simp add: field_names_def)
  have bad: "\<not> set (map fst [(''sample_rate'', PInt 8000)]) \<subseteq> set field_names"
    by (simp add: field_names_def)
  have dflt: "(map_of (to_dict default_config) ++ map_of [(''loglevel'', PInt 3)]) ''loglevel''
                = Some (PInt 3)"
       "(map_of (to_dict default_config) ++ map_of [(''loglevel'', PInt 3)]) ''sampling_rate''
                = Some (PInt 16000)"
    by (simp_all add: to_dict_def default_config_def)
  from from_dict_construction [of "[(''loglevel'', PInt 3)]", where ?'a = unit] ok
  obtain c where "(from_dict [(''loglevel'', PInt 3)] :: unit error + OpenSmileConfig) = Inr c"
    and "map_of (to_dict c) = map_of (to_dict default_config) ++ map_of [(''loglevel'', PInt 3)]"
    by (simp only: if_True) blast
  with dflt have 1: "\<exists>c. (from_dict [(''loglevel'', PInt 3)] :: unit error + OpenSmileConfig) = Inr c \<and>
        map_of (to_dict c) ''loglevel'' = Some (PInt 3) \<and>
        map_of (to_dict c) ''sampling_rate'' = Some (PInt 16000)"
    by auto
  from from_dict_construction [of "[(''sample_rate'', PInt 8000)]", where ?'a = unit] bad
  have 2: "\<exists>k. (from_dict [(''sample_rate'', PInt 8000)] :: unit error + OpenSmileConfig)
           = Inl (TypeError k)"
    by (simp only: if_False) blast
  from 1 2 show ?thesis by blast
qed

section \<open>Properties of the adapter\<close>

lemma init_ok:
  assumes "fst (OpenSmileWrapper_init env st cfg) = Inr self"
  shows "config self = FeatureExtractor_init cfg"
    and "Smile env (smile_kwargs (config self)) = Inr (smileExtractor self)"
    and "is_module_available env ''opensmile''"
  using assms
  by (auto simp: OpenSmileWrapper_init_def Let_def split: if_splits sum.splits)

lemma init_stub:
  "OpenSmileWrapper_init stub_env st (Some c)
     = (Inr (stub_wrapper c), st\<lparr>imported := insert ''opensmile'' (imported st)\<rparr>)"
  by (simp add: OpenSmileWrapper_init_def stub_env_def stub_wrapper_def FeatureExtractor_init_def)

lemma py_eq_PNone: "py_eq v PNone = (v = PNone)"
  by (cases v) simp_all

lemma extract_cases:
  "wrapper_extract env self samples sr =
     (if \<not> py_eq sr (sampling_rate (config self)) then Inl (AssertionError [])
      else case process_signal env (smileExtractor self) samples sr of
             Inl x \<Rightarrow> Inl (Raised x)
           | Inr df \<Rightarrow> (case to_numpy env df of Inl x \<Rightarrow> Inl (Raised x) | Inr arr \<Rightarrow> Inr arr))"
  by (simp add: wrapper_extract_def propagate_def split: sum.splits)

lemma extract_assertion_iff:
  "(wrapper_extract env self samples sr = Inl (AssertionError []))
     = (\<not> py_eq sr (sampling_rate (config self)))"
  by (simp add: extract_cases split: sum.splits)

text \<open>
  C1. For an adapter built from a configuration, \<open>wrapper_extract\<close> fails its assertion
  exactly when the \<open>sampling_rate\<close> argument is not equal (Python's \<open>==\<close>) to the
  configuration's; for integers, exactly when the two numbers differ. A mismatch never
  reaches the engine: the result is the assertion failure, whatever the engine would do.
\<close>

theorem extract_asserts_sampling_rate:
  assumes "fst (OpenSmileWrapper_init env st (Some c)) = Inr self"
  shows "((wrapper_extract env self samples sr = Inl (AssertionError []))
            = (\<not> py_eq sr (sampling_rate c))) \<and>
         (sampling_rate c = PInt r \<longrightarrow>
            (wrapper_extract env self samples (PInt n) = Inl (AssertionError [])) = (n \<noteq> r))"
proof -
  from assms have "config self = c"
    by (simp add: init_ok(1) FeatureExtractor_init_def)
  then show ?thesis
    by (simp add: extract_assertion_iff)
qed

theorem extract_asserts_sampling_rate_witness:
  "fst (OpenSmileWrapper_init stub_env fresh_state (Some default_config))
     = Inr (stub_wrapper default_config) \<and>
   wrapper_extract stub_env (stub_wrapper default_config) [1, 2] (PInt 8000)
     = Inl (AssertionError []) \<and>
   wrapper_extract stub_env (stub_wrapper default_config) [1, 2] (PInt 16000)
     \<noteq> Inl (AssertionError [])"
proof -
  have built: "fst (OpenSmileWrapper_init stub_env fresh_state (Some default_config))
                 = Inr (stub_wrapper default_config)"
    by (simp add: init_stub)
  have rate: "sampling_rate default_config = PInt 16000"
    by (simp add: default_config_def)
  from extract_asserts_sampling_rate [OF built, of "[1, 2]" "PInt 8000" 16000 8000] rate
  have "wrapper_extract stub_env (stub_wrapper default_config) [1, 2] (PInt 8000)
          = Inl (AssertionError [])"
    by simp
  moreover
  from extract_asserts_sampling_rate [OF built, of "[1, 2]" "PInt 16000" 16000 16000] rate
  have "wrapper_extract stub_env (stub_wrapper default_config) [1, 2] (PInt 16000)
          \<noteq> Inl (AssertionError [])"
    by simp
  ultimately show ?thesis using built by simp
qed

text \<open>C3. \<open>frame_shift\<close> is 0 for every adapter, whatever its configuration and engine.\<close>

theorem frame_shift_zero: "frame_shift self = 0"
  by (simp add: frame_shift_def)

text \<open>
  C4. \<open>feature_dim\<close> is 0 for every adapter and every \<open>sampling_rate\<close> argument.
\<close>

theorem feature_dim_zero: "feature_dim self sr = 0"
  by (simp add: feature_dim_def)

text \<open>
  C5. Without the \<^verbatim>\<open>opensmile\<close> package, \<open>featuresets_names\<close> and the adapter's construction
  both fail with the assertion's message, which tells the caller to install the package, and
  leave the interpreter's state as it was: nothing is imported. Loading the module needs no
  engine and does not import the package either: \<^verbatim>\<open>opensmile\<close> is among the imported modules
  after the load only if it was before.
\<close>

theorem missing_dependency:
  assumes "\<not> is_module_available env ''opensmile''"
  shows "featuresets_names env st = (Inl (AssertionError install_msg), st) \<and>
         OpenSmileWrapper_init env st cfg = (Inl (AssertionError install_msg), st) \<and>
         (''opensmile'' \<in> imported (module_load st)) = (''opensmile'' \<in> imported st)"
proof -
  from assms have "featuresets_names env st = (Inl (AssertionError install_msg), st)"
    by (simp add: featuresets_names_def)
  moreover
  from assms have "OpenSmileWrapper_init env st cfg = (Inl (AssertionError install_msg), st)"
    by (simp add: OpenSmileWrapper_init_def)
  moreover
  have "(''opensmile'' \<in> imported (module_load st)) = (''opensmile'' \<in> imported st)"
    by (simp add: module_load_def register_extractor_def module_imports_def)
  ultimately show ?thesis by simp
qed

theorem missing_dependency_witness:
  "\<not> is_module_available bare_env ''opensmile'' \<and>
   featuresets_names bare_env fresh_state = (Inl (AssertionError install_msg), fresh_state) \<and>
   OpenSmileWrapper_init bare_env fresh_state (Some default_config)
     = (Inl (AssertionError install_msg), fresh_state) \<and>
   ''opensmile'' \<notin> imported (module_load fresh_state)"
proof -
  have absent: "\<not> is_module_available bare_env ''opensmile''"
    by (simp add: bare_env_def)
  have "''opensmile'' \<notin> imported fresh_state"
    by (simp add: fresh_state_def)
  with missing_dependency [OF absent, of fresh_state "Some default_config"] absent
  show ?thesis by simp
qed

text \<open>
  C6. For an adapter that has been built and a \<open>sampling_rate\<close> argument that passes the
  assertion, \<open>wrapper_extract\<close> is the engine's \<open>process_signal\<close> on the same buffer and
  the same rate, by the engine instance that \<open>Smile\<close> built from the configuration,
  followed by \<open>to_numpy\<close>, and nothing else: the array is returned as \<open>to_numpy\<close> gives it,
  and an exception of either call reaches the caller unchanged.
\<close>

theorem extract_forwards_to_engine:
  assumes "fst (OpenSmileWrapper_init env st cfg) = Inr self"
      and "py_eq sr (sampling_rate (config self))"
  shows "Smile env (smile_kwargs (config self)) = Inr (smileExtractor self) \<and>
         wrapper_extract env self samples sr =
           (case process_signal env (smileExtractor self) samples sr of
              Inl x \<Rightarrow> Inl (Raised x)
            | Inr df \<Rightarrow> (case to_numpy env df of Inl x \<Rightarrow> Inl (Raised x) | Inr arr \<Rightarrow> Inr arr))"
  using assms by (simp add: init_ok(2) extract_cases)

theorem extract_forwards_to_engine_witness:
  "fst (OpenSmileWrapper_init stub_env fresh_state (Some default_config))
     = Inr (stub_wrapper default_config) \<and>
   py_eq (PInt 16000) (sampling_rate (config (stub_wrapper default_config))) \<and>
   wrapper_extract stub_env (stub_wrapper default_config) [1, 2] (PInt 16000)
     = Inr [ [1, 2], [2, 4] ] \<and>
   wrapper_extract stub_env (stub_wrapper default_config) [] (PInt 16000)
     = Inl (Raised ''empty signal'')"
proof -
  have built: "fst (OpenSmileWrapper_init stub_env fresh_state (Some default_config))
                 = Inr (stub_wrapper default_config)"
    by (simp add: init_stub)
  have rate: "py_eq (PInt 16000) (sampling_rate (config (stub_wrapper default_config)))"
    by (simp add: stub_wrapper_def default_config_def)
  from extract_forwards_to_engine [OF built rate, of "[1, 2]"]
  have "wrapper_extract stub_env (stub_wrapper default_config) [1, 2] (PInt 16000)
          = Inr [ [1, 2], [2, 4] ]"
    by (simp add: stub_env_def)
  moreover
  from extract_forwards_to_engine [OF built rate, of "[]"]
  have "wrapper_extract stub_env (stub_wrapper default_config) [] (PInt 16000)
          = Inl (Raised ''empty signal'')"
    by (simp add: stub_env_def)
  ultimately show ?thesis using built rate by simp
qed

lemma feature_names_cases:
  "feature_names env self =
     (case smile_feature_names env (smileExtractor self) of
        Inl x \<Rightarrow> Inl (Raised x)
      | Inr names \<Rightarrow> Inl (TypeError ''list object is not callable''))"
  by (simp add: feature_names_def propagate_def call_list_def split: sum.splits)

lemma feature_names_never_returns: "feature_names env self \<noteq> Inr names"
  by (simp add: feature_names_cases split: sum.splits)

text \<open>
  C8. The claim has \<open>feature_names\<close> return the names the engine instance lists. The code
  does not: it calls the engine's attribute \<^verbatim>\<open>feature_names\<close>, which is the list of names
  itself, so the call raises \<open>TypeError\<close> and no names are returned. Here the adapter built
  from the default configuration has an engine whose attribute holds two names, and
  \<open>feature_names\<close> on it is the \<open>TypeError\<close>.
\<close>

theorem feature_names_raises_TypeError:
  "fst (OpenSmileWrapper_init stub_env fresh_state (Some default_config))
     = Inr (stub_wrapper default_config) \<and>
   smile_feature_names stub_env (smileExtractor (stub_wrapper default_config))
     = Inr [''value'', ''double''] \<and>
   feature_names stub_env (stub_wrapper default_config)
     = Inl (TypeError ''list object is not callable'')"
proof -
  have "fst (OpenSmileWrapper_init stub_env fresh_state (Some default_config))
          = Inr (stub_wrapper default_config)"
    by (simp add: init_stub)
  moreover
  have names: "smile_feature_names stub_env (smileExtractor (stub_wrapper default_config))
                 = Inr [''value'', ''double'']"
    by (simp add: stub_env_def)
  moreover
  from names have "feature_names stub_env (stub_wrapper default_config)
                     = Inl (TypeError ''list object is not callable'')"
    by (simp add: feature_names_cases)
  ultimately show ?thesis by simp
qed

text \<open>
  C9. Loading the module enters the adapter class in the registry of extractors under the
  key \<^verbatim>\<open>opensmile-wrapper\<close>, the class's \<open>name\<close>, and under no other key; the class
  entered names \<^verbatim>\<open>OpenSmileConfig\<close> as its \<open>config_type\<close>. Looking the name up in the
  registry after the load gives the class.
\<close>

theorem registered_as_opensmile_wrapper:
  "FEATURE_EXTRACTORS (module_load st)
     = (FEATURE_EXTRACTORS st)(''opensmile-wrapper'' \<mapsto> OpenSmileWrapper_class) \<and>
   FEATURE_EXTRACTORS (module_load st) ''opensmile-wrapper'' = Some OpenSmileWrapper_class \<and>
   name OpenSmileWrapper_class = ''opensmile-wrapper'' \<and>
   config_type OpenSmileWrapper_class = ''OpenSmileConfig''"
  by (simp add: module_load_def register_extractor_def OpenSmileWrapper_class_def)

text \<open>
  C10. For an adapter built from a configuration whose \<open>sampling_rate\<close> is \<open>PNone\<close>,
  \<open>wrapper_extract\<close> fails its assertion at every integer \<open>sampling_rate\<close> argument; the
  only argument that passes the assertion is \<open>PNone\<close> itself.
\<close>

theorem extract_without_configured_rate:
  assumes "fst (OpenSmileWrapper_init env st (Some c)) = Inr self"
      and "sampling_rate c = PNone"
  shows "wrapper_extract env self samples (PInt n) = Inl (AssertionError []) \<and>
         ((wrapper_extract env self samples sr \<noteq> Inl (AssertionError [])) = (sr = PNone))"
proof -
  from assms have "sampling_rate (config self) = PNone"
    by (simp add: init_ok(1) FeatureExtractor_init_def)
  then show ?thesis
    by (simp add: extract_assertion_iff py_eq_PNone)
qed

theorem extract_without_configured_rate_witness:
  "fst (OpenSmileWrapper_init stub_env fresh_state
          (Some (default_config\<lparr>sampling_rate := PNone\<rparr>)))
     = Inr (stub_wrapper (default_config\<lparr>sampling_rate := PNone\<rparr>)) \<and>
   sampling_rate (default_config\<lparr>sampling_rate := PNone\<rparr>) = PNone \<and>
   wrapper_extract stub_env (stub_wrapper (default_config\<lparr>sampling_rate := PNone\<rparr>))
     [1, 2] (PInt 16000) = Inl (AssertionError []) \<and>
   wrapper_extract stub_env (stub_wrapper (default_config\<lparr>sampling_rate := PNone\<rparr>))
     [1, 2] PNone \<noteq> Inl (AssertionError [])"
proof -
  let ?c = "default_config\<lparr>sampling_rate := PNone\<rparr>"
  have built: "fst (OpenSmileWrapper_init stub_env fresh_state (Some ?c))
                 = Inr (stub_wrapper ?c)"
    by (simp add: init_stub)
  have rate: "sampling_rate ?c = PNone"
    by simp
  from extract_without_configured_rate [OF built rate, of "[1, 2]" 16000 PNone]
  have "wrapper_extract stub_env (stub_wrapper ?c) [1, 2] (PInt 16000)
          = Inl (AssertionError []) \<and>
        wrapper_extract stub_env (stub_wrapper ?c) [1, 2] PNone \<noteq> Inl (AssertionError [])"
    by simp
  with built rate show ?thesis by simp
qed

end
